theory Spec2Isabelle
  imports Main "HOL-Library.AList"
begin

section \<open>Python values and exceptions\<close>

text \<open>
  The values that cross the boundary of \<^verbatim>\<open>ssm_cache/cache.py\<close>: the response of the
  store client, the cached value of a parameter, the arguments of a wrapped operation.
  A dict is an association list (its keys here are always strings). The module is read
  as Python 3 reads it.
\<close>

datatype pyval =
    PyNone
  | PyBool bool
  | PyInt int
  | PyStr string
  | PyList "pyval list"
  | PyDict "(string \<times> pyval) list"

text \<open>
  Exceptions. \<open>RecursionError\<close>, \<open>AttributeError\<close>, \<open>TypeError\<close> and \<open>KeyError\<close> are the
  ones the interpreter raises inside the module, \<open>OverflowError\<close> and \<open>ValueError\<close> the ones
  \<^verbatim>\<open>datetime\<close> and \<^verbatim>\<open>timedelta\<close> raise; \<open>Exc c\<close> is an exception of class \<open>c\<close>
  (below \<^verbatim>\<open>Exception\<close>) raised by a collaborator: the store client, the client factory, a
  wrapped operation, an error callback; \<open>BaseExc c\<close> is one that is not below
  \<^verbatim>\<open>Exception\<close> (\<^verbatim>\<open>KeyboardInterrupt\<close>, \<^verbatim>\<open>SystemExit\<close>).
\<close>

datatype exn =
    RecursionError
  | AttributeError
  | TypeError
  | KeyError string
  | OverflowError
  | ValueError
  | Exc string
  | BaseExc string

text \<open>
  \<^verbatim>\<open>except error_class:\<close> tests \<^verbatim>\<open>isinstance(e, error_class)\<close>; an error class is the set of
  exceptions it accepts. \<^verbatim>\<open>Exception\<close>, the default of \<^verbatim>\<open>refresh_on_error\<close>, accepts all
  but the \<open>BaseExc\<close> ones.
\<close>

type_synonym error_class = "exn \<Rightarrow> bool"

fun Exception_class :: error_class where
  "Exception_class (BaseExc c) = False"
| "Exception_class e = True"

text \<open>
  \<^verbatim>\<open>obj[key]\<close> with a string key: a dict looks the key up (\<^verbatim>\<open>KeyError\<close> when it is
  missing); a list, a string, a number and \<^verbatim>\<open>None\<close> raise \<^verbatim>\<open>TypeError\<close>.
\<close>

fun getitem :: "pyval \<Rightarrow> string \<Rightarrow> exn + pyval" where
  "getitem (PyDict kvs) k = (case map_of kvs k of None \<Rightarrow> Inl (KeyError k) | Some v \<Rightarrow> Inr v)"
| "getitem v k = Inl TypeError"

section \<open>Objects and the world\<close>

text \<open>
  A \<^verbatim>\<open>datetime\<close> is an integer: the microseconds (its resolution) since
  1970-01-01T00:00:00. It lies between \<^verbatim>\<open>datetime.min\<close> (0001-01-01T00:00:00) and
  \<^verbatim>\<open>datetime.max\<close> (9999-12-31T23:59:59.999999); \<^verbatim>\<open>datetime + timedelta\<close> raises
  \<^verbatim>\<open>OverflowError\<close> when the sum does not. A \<^verbatim>\<open>timedelta\<close> is an integer number of
  microseconds.
\<close>

definition datetime_min :: int where
  "datetime_min = - 62135596800000000"

definition datetime_max :: int where
  "datetime_max = 253402300799999999"

definition is_datetime :: "int \<Rightarrow> bool" where
  "is_datetime t \<longleftrightarrow> datetime_min \<le> t \<and> t \<le> datetime_max"

definition datetime_add :: "int \<Rightarrow> int \<Rightarrow> exn + int" where
  "datetime_add t delta =
     (if is_datetime (t + delta) then Inr (t + delta) else Inl OverflowError)"

text \<open>
  The argument \<^verbatim>\<open>max_age\<close>, when it is not \<^verbatim>\<open>None\<close>. The module does two things with it:
  it tests its truth (\<^verbatim>\<open>max_age or 0\<close>, \<^verbatim>\<open>not self._max_age\<close>) and it passes it to
  \<^verbatim>\<open>timedelta(seconds=...)\<close>.
  \<^item> \<open>IntSeconds n\<close> is the integer \<open>n\<close> (\<^verbatim>\<open>True\<close> and \<^verbatim>\<open>False\<close> are the integers 1 and 0).
  \<^item> \<open>FloatSeconds b d\<close> is a float, given by what the module can observe of it: \<open>b\<close>,
    whether it is true (not zero), and \<open>d\<close>, what \<^verbatim>\<open>timedelta(seconds=...)\<close> makes of it: the
    microseconds it rounds the float to, or the exception it raises (\<^verbatim>\<open>ValueError\<close> for a
    NaN, \<^verbatim>\<open>OverflowError\<close> for an infinity or a float too large).
  \<^item> \<open>OtherValue b\<close> is any other object, \<open>b\<close> its truth value; \<^verbatim>\<open>timedelta\<close> refuses it
    with \<^verbatim>\<open>TypeError\<close>.
\<close>

datatype seconds =
    IntSeconds int
  | FloatSeconds bool "exn + int"
  | OtherValue bool

text \<open>The truth value of \<^verbatim>\<open>max_age\<close>.\<close>

fun truthy :: "seconds option \<Rightarrow> bool" where
  "truthy None = False"
| "truthy (Some (IntSeconds n)) = (n \<noteq> 0)"
| "truthy (Some (FloatSeconds b d)) = b"
| "truthy (Some (OtherValue b)) = b"

text \<open>\<^verbatim>\<open>max_age or 0\<close>\<close>

definition or_zero :: "seconds option \<Rightarrow> seconds" where
  "or_zero m = (case m of None \<Rightarrow> IntSeconds 0 | Some x \<Rightarrow> if truthy m then x else IntSeconds 0)"

text \<open>
  \<^verbatim>\<open>timedelta(seconds=x)\<close>. An integer number of seconds is kept exactly; the days of a
  \<^verbatim>\<open>timedelta\<close> (the seconds divided by 86400, rounded down) have a magnitude of at most
  999999999, or the constructor raises \<^verbatim>\<open>OverflowError\<close>.
\<close>

fun timedelta_seconds :: "seconds \<Rightarrow> exn + int" where
  "timedelta_seconds (IntSeconds n) =
     (if - 999999999 \<le> n div 86400 \<and> n div 86400 \<le> 999999999 then Inr (1000000 * n)
      else Inl OverflowError)"
| "timedelta_seconds (FloatSeconds b d) = d"
| "timedelta_seconds (OtherValue b) = Inl TypeError"

text \<open>\<^verbatim>\<open>class Refreshable\<close>: the fields \<^verbatim>\<open>_last_refresh_time\<close>, \<^verbatim>\<open>_max_age\<close>, \<^verbatim>\<open>_max_age_delta\<close>.\<close>

record refreshable =
  last_refresh_time :: "int option"
  max_age :: "seconds option"
  max_age_delta :: int

text \<open>
  \<^verbatim>\<open>class SSMParameter(Refreshable)\<close>: \<^verbatim>\<open>_name\<close>, \<^verbatim>\<open>_value\<close>, \<^verbatim>\<open>_with_decryption\<close>, \<^verbatim>\<open>_group\<close>
  (a reference to a group object, or \<^verbatim>\<open>None\<close>).
\<close>

record ssm_parameter = refreshable +
  pname :: string
  pvalue :: pyval
  with_decryption :: bool
  pgroup :: "nat option"

text \<open>\<^verbatim>\<open>class SSMParameterGroup(Refreshable)\<close>: \<^verbatim>\<open>_parameters\<close>, a list of references.\<close>

record ssm_parameter_group = refreshable +
  parameters :: "nat list"

text \<open>A reference to a \<^verbatim>\<open>Refreshable\<close> object: a parameter or a group, by address.\<close>

datatype ref = Param nat | Group nat

text \<open>
  The store client is the external collaborator, an object with a method
  \<^verbatim>\<open>get_parameters(Names, WithDecryption)\<close> that returns a response or raises. Its answer
  may change from call to call, so it also depends on the number of requests made
  before. \<open>client_is_true\<close> is the truth value of the object (true for boto3's client, as
  for any object without \<^verbatim>\<open>__bool__\<close> or \<^verbatim>\<open>__len__\<close>), which \<^verbatim>\<open>get_ssm_client\<close> tests.
\<close>

record ssm_client =
  client_answer :: "nat \<Rightarrow> string list \<Rightarrow> bool \<Rightarrow> exn + pyval"
  client_is_true :: bool

text \<open>
  What the outside observes: the requests sent to the store. Wrapped operations and
  callbacks are caller code and may leave their own marks (\<open>Invoked\<close> with the arguments
  they received, \<open>CalledBack\<close>).
\<close>

datatype event =
    GetParameters "string list" bool
  | Invoked "pyval list" "(string \<times> pyval) list"
  | CalledBack

text \<open>
  The world: the heap of parameter and group objects, the class attributes
  \<^verbatim>\<open>SSMParameter.SSM_CLIENT_FACTORY\<close> (\<^verbatim>\<open>None\<close>, or a callable that yields a client or
  raises) and \<^verbatim>\<open>SSMParameter._SSM_CLIENT\<close>, what \<^verbatim>\<open>boto3.client('ssm')\<close> would yield, the
  clock (\<open>clock s n\<close> is the \<open>n\<close>-th reading of \<^verbatim>\<open>datetime.utcnow()\<close>, \<open>ticks\<close> the
  number of readings taken) and the trace of events.
\<close>

record world =
  params :: "nat \<Rightarrow> ssm_parameter"
  groups :: "nat \<Rightarrow> ssm_parameter_group"
  next_param :: nat
  next_group :: nat
  SSM_CLIENT_FACTORY :: "(exn + ssm_client) option"
  SSM_CLIENT :: "ssm_client option"
  boto3_client :: "exn + ssm_client"
  clock :: "nat \<Rightarrow> int"
  ticks :: nat
  trace :: "event list"

definition utcnow :: "world \<Rightarrow> int \<times> world" where
  "utcnow s = (clock s (ticks s), s\<lparr>ticks := Suc (ticks s)\<rparr>)"

text \<open>Calling the client: the request is sent (and observed), the store answers.\<close>

definition fetches :: "world \<Rightarrow> event list" where
  "fetches s = filter (\<lambda>e. case e of GetParameters ns d \<Rightarrow> True | _ \<Rightarrow> False) (trace s)"

definition get_parameters :: "ssm_client \<Rightarrow> string list \<Rightarrow> bool \<Rightarrow> world \<Rightarrow> (exn + pyval) \<times> world" where
  "get_parameters c Names WithDecryption s =
     (client_answer c (length (fetches s)) Names WithDecryption,
      s\<lparr>trace := trace s @ [GetParameters Names WithDecryption]\<rparr>)"

section \<open>Refreshable\<close>

text \<open>
  \<^verbatim>\<open>Refreshable.__init__(self, max_age)\<close>: no object is made when \<^verbatim>\<open>timedelta\<close> raises.
\<close>

definition Refreshable_init :: "seconds option \<Rightarrow> exn + refreshable" where
  "Refreshable_init m =
     (case timedelta_seconds (or_zero m) of
        Inl e \<Rightarrow> Inl e
      | Inr delta \<Rightarrow> Inr \<lparr>last_refresh_time = None, max_age = m, max_age_delta = delta\<rparr>)"

text \<open>
  \<^verbatim>\<open>Refreshable._should_refresh\<close>. \<^verbatim>\<open>not self._max_age\<close> holds when \<^verbatim>\<open>max_age\<close> is
  \<^verbatim>\<open>None\<close>, zero or another false value; a \<^verbatim>\<open>datetime\<close> is always true, so
  \<^verbatim>\<open>not self._last_refresh_time\<close> holds for \<^verbatim>\<open>None\<close> only. In the last line the clock is
  read first, then \<^verbatim>\<open>self._last_refresh_time + self._max_age_delta\<close> is computed, which
  raises \<^verbatim>\<open>OverflowError\<close> when the sum is no \<^verbatim>\<open>datetime\<close>.
\<close>

definition Refreshable_should_refresh ::
    "'a refreshable_scheme \<Rightarrow> world \<Rightarrow> (exn + bool) \<times> world" where
  "Refreshable_should_refresh self s =
     (if \<not> truthy (max_age self) then (Inr False, s)
      else case last_refresh_time self of
             None \<Rightarrow> (Inr True, s)
           | Some t \<Rightarrow>
               (case utcnow s of
                  (now, s1) \<Rightarrow>
                    (case datetime_add t (max_age_delta self) of
                       Inl e \<Rightarrow> (Inl e, s1)
                     | Inr due \<Rightarrow> (Inr (now > due), s1))))"

definition set_last_refresh_time :: "ref \<Rightarrow> int \<Rightarrow> world \<Rightarrow> world" where
  "set_last_refresh_time x t s =
     (case x of
        Param p \<Rightarrow> s\<lparr>params := (params s)(p := (params s p)\<lparr>last_refresh_time := Some t\<rparr>)\<rparr>
      | Group g \<Rightarrow> s\<lparr>groups := (groups s)(g := (groups s g)\<lparr>last_refresh_time := Some t\<rparr>)\<rparr>)"

section \<open>The store client of the class\<close>

text \<open>
  \<^verbatim>\<open>SSMParameter.get_ssm_client(cls, refresh=False)\<close>. The cached client is returned when
  \<^verbatim>\<open>cls._SSM_CLIENT\<close> is true (there is one, and the object is true); otherwise a client is
  made and stored in \<^verbatim>\<open>cls._SSM_CLIENT\<close>, and the function ends without a \<^verbatim>\<open>return\<close>: the
  caller gets \<^verbatim>\<open>None\<close>. \<^verbatim>\<open>SSM_CLIENT_FACTORY\<close> is \<open>None\<close> when the attribute is \<^verbatim>\<open>None\<close> (or
  false).
\<close>

definition get_ssm_client :: "bool \<Rightarrow> world \<Rightarrow> (exn + ssm_client option) \<times> world" where
  "get_ssm_client refresh s =
     (if (case SSM_CLIENT s of None \<Rightarrow> False | Some c \<Rightarrow> client_is_true c) \<and> \<not> refresh
      then (Inr (SSM_CLIENT s), s)
      else case SSM_CLIENT_FACTORY s of
             Some factory \<Rightarrow>
               (case factory of
                  Inl e \<Rightarrow> (Inl e, s)
                | Inr c \<Rightarrow> (Inr None, s\<lparr>SSM_CLIENT := Some c\<rparr>))
           | None \<Rightarrow>
               (case boto3_client s of
                  Inl e \<Rightarrow> (Inl e, s)
                | Inr c \<Rightarrow> (Inr None, s\<lparr>SSM_CLIENT := Some c\<rparr>)))"

section \<open>Refreshing\<close>

text \<open>
  \<^verbatim>\<open>Refreshable.refresh\<close>, \<^verbatim>\<open>SSMParameterGroup._refresh\<close> (with its \<^verbatim>\<open>for\<close> loop) and
  \<^verbatim>\<open>SSMParameter._refresh\<close> call each other. The first argument is the number of nested
  calls the interpreter's recursion limit still allows: a call made when none is left
  raises \<^verbatim>\<open>RecursionError\<close>, and each call leaves one less to the calls it makes.
  \<^verbatim>\<open>self._refresh()\<close> in \<^verbatim>\<open>Refreshable.refresh\<close> is dispatched on the class of \<^verbatim>\<open>self\<close>.
  An exception ends every enclosing call; the world keeps what was done before it.
\<close>

fun Refreshable_refresh :: "nat \<Rightarrow> ref \<Rightarrow> world \<Rightarrow> (exn + unit) \<times> world"
  and SSMParameterGroup__refresh :: "nat \<Rightarrow> nat \<Rightarrow> world \<Rightarrow> (exn + unit) \<times> world"
  and for_param_in :: "nat \<Rightarrow> nat list \<Rightarrow> world \<Rightarrow> (exn + unit) \<times> world"
  and SSMParameter__refresh :: "nat \<Rightarrow> nat \<Rightarrow> world \<Rightarrow> (exn + unit) \<times> world"
where
  "Refreshable_refresh 0 x s = (Inl RecursionError, s)"
| "Refreshable_refresh (Suc d) x s =
     (case (case x of Param p \<Rightarrow> SSMParameter__refresh d p s
                    | Group g \<Rightarrow> SSMParameterGroup__refresh d g s) of
        (Inl e, s1) \<Rightarrow> (Inl e, s1)
      | (Inr u, s1) \<Rightarrow> (case utcnow s1 of (now, s2) \<Rightarrow> (Inr (), set_last_refresh_time x now s2)))"
| "SSMParameterGroup__refresh 0 g s = (Inl RecursionError, s)"
| "SSMParameterGroup__refresh (Suc d) g s = for_param_in d (parameters (groups s g)) s"
| "for_param_in d [] s = (Inr (), s)"
| "for_param_in d (p # ps) s =
     (case SSMParameter__refresh d p s of
        (Inl e, s1) \<Rightarrow> (Inl e, s1)
      | (Inr u, s1) \<Rightarrow> for_param_in d ps s1)"
| "SSMParameter__refresh 0 p s = (Inl RecursionError, s)"
| "SSMParameter__refresh (Suc d) p s =
     (case pgroup (params s p) of
        Some g \<Rightarrow> Refreshable_refresh d (Group g) s
      | None \<Rightarrow>
          (case get_ssm_client False s of
             (Inl e, s1) \<Rightarrow> (Inl e, s1)
           | (Inr None, s1) \<Rightarrow> (Inl AttributeError, s1)
           | (Inr (Some c), s1) \<Rightarrow>
               (case get_parameters c [pname (params s1 p)] (with_decryption (params s1 p)) s1 of
                  (Inl e, s2) \<Rightarrow> (Inl e, s2)
                | (Inr response, s2) \<Rightarrow>
                    (case getitem response ''Parameters'' of
                       Inl e \<Rightarrow> (Inl e, s2)
                     | Inr ps \<Rightarrow>
                         (case getitem ps ''Value'' of
                            Inl e \<Rightarrow> (Inl e, s2)
                          | Inr v \<Rightarrow>
                              (Inr (), s2\<lparr>params := (params s2)(p := (params s2 p)\<lparr>pvalue := v\<rparr>)\<rparr>))))))"

text \<open>\<^verbatim>\<open>self._refresh()\<close> as \<^verbatim>\<open>Refreshable.refresh\<close> dispatches it.\<close>

definition virtual_refresh :: "nat \<Rightarrow> ref \<Rightarrow> world \<Rightarrow> (exn + unit) \<times> world" where
  "virtual_refresh d x s =
     (case x of Param p \<Rightarrow> SSMParameter__refresh d p s
              | Group g \<Rightarrow> SSMParameterGroup__refresh d g s)"

definition get_last_refresh_time :: "ref \<Rightarrow> world \<Rightarrow> int option" where
  "get_last_refresh_time x s =
     (case x of Param p \<Rightarrow> last_refresh_time (params s p)
              | Group g \<Rightarrow> last_refresh_time (groups s g))"

section \<open>Parameters and groups\<close>

text \<open>
  \<^verbatim>\<open>SSMParameter.__init__(self, param_name, max_age=None, with_decryption=True)\<close>: a new
  object on the heap; the result is its address. When \<^verbatim>\<open>Refreshable.__init__\<close> raises, no
  object is made.
\<close>

definition SSMParameter_init ::
    "string \<Rightarrow> seconds option \<Rightarrow> bool \<Rightarrow> world \<Rightarrow> (exn + nat) \<times> world" where
  "SSMParameter_init param_name m decrypt s =
     (case Refreshable_init m of
        Inl e \<Rightarrow> (Inl e, s)
      | Inr r \<Rightarrow>
          (Inr (next_param s),
           s\<lparr>params := (params s)(next_param s :=
                \<lparr>last_refresh_time = last_refresh_time r, max_age = max_age r,
                 max_age_delta = max_age_delta r,
                 pname = param_name, pvalue = PyNone, with_decryption = decrypt, pgroup = None\<rparr>),
             next_param := Suc (next_param s)\<rparr>))"

text \<open>\<^verbatim>\<open>SSMParameterGroup.__init__(self, max_age=None)\<close>\<close>

definition SSMParameterGroup_init :: "seconds option \<Rightarrow> world \<Rightarrow> (exn + nat) \<times> world" where
  "SSMParameterGroup_init m s =
     (case Refreshable_init m of
        Inl e \<Rightarrow> (Inl e, s)
      | Inr r \<Rightarrow>
          (Inr (next_group s),
           s\<lparr>groups := (groups s)(next_group s :=
                \<lparr>last_refresh_time = last_refresh_time r, max_age = max_age r,
                 max_age_delta = max_age_delta r, parameters = []\<rparr>),
             next_group := Suc (next_group s)\<rparr>))"

text \<open>
  \<^verbatim>\<open>SSMParameterGroup.parameter(self, *args, **kwargs)\<close>: makes the parameter, points its
  \<^verbatim>\<open>_group\<close> at the group and appends it to \<^verbatim>\<open>_parameters\<close>. When the constructor raises,
  nothing is appended.
\<close>

definition SSMParameterGroup_parameter ::
    "nat \<Rightarrow> string \<Rightarrow> seconds option \<Rightarrow> bool \<Rightarrow> world \<Rightarrow> (exn + nat) \<times> world" where
  "SSMParameterGroup_parameter self param_name m decrypt s =
     (case SSMParameter_init param_name m decrypt s of
        (Inl e, s1) \<Rightarrow> (Inl e, s1)
      | (Inr p, s1) \<Rightarrow>
          (Inr p, s1\<lparr>params := (params s1)(p := (params s1 p)\<lparr>pgroup := Some self\<rparr>),
                     groups := (groups s1)(self := (groups s1 self)
                                 \<lparr>parameters := parameters (groups s1 self) @ [p]\<rparr>)\<rparr>))"

text \<open>
  The property \<^verbatim>\<open>SSMParameter.name\<close>: its body is \<^verbatim>\<open>return self.name\<close>, the property
  itself.
\<close>

fun SSMParameter_name :: "nat \<Rightarrow> nat \<Rightarrow> world \<Rightarrow> (exn + string) \<times> world" where
  "SSMParameter_name 0 self s = (Inl RecursionError, s)"
| "SSMParameter_name (Suc d) self s = SSMParameter_name d self s"

text \<open>
  The property \<^verbatim>\<open>SSMParameter.value\<close>. \<^verbatim>\<open>or\<close> does not evaluate
  \<^verbatim>\<open>self._should_refresh()\<close> when \<^verbatim>\<open>self._value is None\<close>; an exception of
  \<^verbatim>\<open>_should_refresh\<close> is one of the read.
\<close>

definition SSMParameter_value :: "nat \<Rightarrow> nat \<Rightarrow> world \<Rightarrow> (exn + pyval) \<times> world" where
  "SSMParameter_value d self s =
     (case (if pvalue (params s self) = PyNone then (Inr True, s)
            else Refreshable_should_refresh (params s self) s) of
        (Inl e, s0) \<Rightarrow> (Inl e, s0)
      | (Inr True, s0) \<Rightarrow>
          (case Refreshable_refresh d (Param self) s0 of
             (Inl e, s1) \<Rightarrow> (Inl e, s1)
           | (Inr u, s1) \<Rightarrow> (Inr (pvalue (params s1 self)), s1))
      | (Inr False, s0) \<Rightarrow> (Inr (pvalue (params s0 self)), s0))"

section \<open>The decorator\<close>

text \<open>
  A wrapped operation is caller code: it takes \<^verbatim>\<open>*args\<close> and \<^verbatim>\<open>**kwargs\<close>, may do
  anything to the world, and returns or raises. An error callback takes no argument.
\<close>

type_synonym operation =
  "pyval list \<Rightarrow> (string \<times> pyval) list \<Rightarrow> world \<Rightarrow> (exn + pyval) \<times> world"

type_synonym callback = "world \<Rightarrow> (exn + unit) \<times> world"

text \<open>
  \<^verbatim>\<open>SSMParameter.refresh_on_error(self, error_class, error_callback, retry_argument)\<close>
  applied to \<^verbatim>\<open>func\<close>: the function \<^verbatim>\<open>wrapped(*args, **kwargs)\<close>. \<open>error_callback\<close> is
  \<open>None\<close> when the argument is not callable. \<^verbatim>\<open>kwargs[retry_argument] = True\<close> replaces
  the entry of that name or appends one.
\<close>

definition refresh_on_error ::
    "nat \<Rightarrow> nat \<Rightarrow> error_class \<Rightarrow> callback option \<Rightarrow> string \<Rightarrow> operation \<Rightarrow> operation" where
  "refresh_on_error d self error_class error_callback retry_argument func args kwargs s =
     (case func args kwargs s of
        (Inr r, s1) \<Rightarrow> (Inr r, s1)
      | (Inl e, s1) \<Rightarrow>
          if error_class e then
            (case Refreshable_refresh d (Param self) s1 of
               (Inl e1, s2) \<Rightarrow> (Inl e1, s2)
             | (Inr u, s2) \<Rightarrow>
                 (case (case error_callback of None \<Rightarrow> (Inr (), s2) | Some cb \<Rightarrow> cb s2) of
                    (Inl e2, s3) \<Rightarrow> (Inl e2, s3)
                  | (Inr v, s3) \<Rightarrow>
                      func args (AList.update retry_argument (PyBool True) kwargs) s3))
          else (Inl e, s1))"

section \<open>Ownership\<close>

text \<open>
  A group owns its parameters when every parameter of its list points back at it, as
  \<^verbatim>\<open>SSMParameterGroup.parameter\<close>, the only code that extends the list, leaves it.
\<close>

definition owns :: "world \<Rightarrow> nat \<Rightarrow> bool" where
  "owns s g = list_all (\<lambda>p. pgroup (params s p) = Some g) (parameters (groups s g))"

text \<open>
  What holds of every world the constructors and the operations below can produce: each
  group owns its parameters, which are allocated; \<^verbatim>\<open>_max_age_delta\<close> is what
  \<^verbatim>\<open>timedelta\<close> returned for \<^verbatim>\<open>_max_age or 0\<close> in \<^verbatim>\<open>Refreshable.__init__\<close>; and a parameter that has a group
  is in the list of that group, which is allocated, and has no value.
\<close>

definition heap_ok :: "world \<Rightarrow> bool" where
  "heap_ok s \<longleftrightarrow>
     (\<forall>g. owns s g
          \<and> (\<forall>p \<in> set (parameters (groups s g)). p < next_param s)
          \<and> timedelta_seconds (or_zero (max_age (groups s g))) = Inr (max_age_delta (groups s g)))
   \<and> (\<forall>p. timedelta_seconds (or_zero (max_age (params s p))) = Inr (max_age_delta (params s p))
          \<and> (\<forall>g. pgroup (params s p) = Some g \<longrightarrow>
                 g < next_group s \<and> p \<in> set (parameters (groups s g))
               \<and> pvalue (params s p) = PyNone))"

text \<open>
  What a refresh leaves alone: the allocation, the links between groups and parameters,
  the policies, and the value of every parameter that has a group.
\<close>

definition same_structure :: "world \<Rightarrow> world \<Rightarrow> bool" where
  "same_structure s s' \<longleftrightarrow>
     next_param s' = next_param s \<and> next_group s' = next_group s
   \<and> (\<forall>q. pgroup (params s' q) = pgroup (params s q)
          \<and> max_age (params s' q) = max_age (params s q)
          \<and> max_age_delta (params s' q) = max_age_delta (params s q)
          \<and> (pgroup (params s q) \<noteq> None \<longrightarrow> pvalue (params s' q) = pvalue (params s q)))
   \<and> (\<forall>g. parameters (groups s' g) = parameters (groups s g)
          \<and> max_age (groups s' g) = max_age (groups s g)
          \<and> max_age_delta (groups s' g) = max_age_delta (groups s g))"

section \<open>Scenarios\<close>

text \<open>The default recursion limit of the interpreter.\<close>

definition recursionlimit :: nat where
  "recursionlimit = 1000"

text \<open>
  A store holding the given names and values whose client answers as boto3's
  \<^verbatim>\<open>get_parameters\<close> does: \<^verbatim>\<open>{'Parameters': [{'Name': n, 'Value': v}, ...],
  'InvalidParameters': [...]}\<close>.
\<close>

definition boto3_store :: "(string \<times> string) list \<Rightarrow> ssm_client" where
  "boto3_store kvs =
     \<lparr>client_answer = (\<lambda>n Names WithDecryption.
        Inr (PyDict
          [(''Parameters'',
              PyList (map (\<lambda>(k, v). PyDict [(''Name'', PyStr k), (''Value'', PyStr v)])
                          (filter (\<lambda>(k, v). k \<in> set Names) kvs))),
           (''InvalidParameters'',
              PyList (map PyStr (filter (\<lambda>k. k \<notin> fst ` set kvs) Names)))])),
      client_is_true = True\<rparr>"

text \<open>
  A client whose response has the one shape \<^verbatim>\<open>SSMParameter._refresh\<close> reads without an
  exception: \<^verbatim>\<open>{'Parameters': {'Value': v}}\<close>, here with the value of the first name
  asked for.
\<close>

definition flat_store :: "(string \<times> string) list \<Rightarrow> ssm_client" where
  "flat_store kvs =
     \<lparr>client_answer = (\<lambda>n Names WithDecryption.
        case Names of
          [] \<Rightarrow> Inl (Exc ''ValidationException'')
        | k # ks \<Rightarrow>
            (case map_of kvs k of
               None \<Rightarrow> Inl (Exc ''ParameterNotFound'')
             | Some v \<Rightarrow> Inr (PyDict [(''Parameters'', PyDict [(''Value'', PyStr v)])]))),
      client_is_true = True\<rparr>"

text \<open>
  A process that has made no object yet: the client factory yields the given client,
  no client is cached, and the \<open>n\<close>-th reading of the clock is \<open>61 n\<close> seconds.
\<close>

definition fresh_world :: "ssm_client \<Rightarrow> world" where
  "fresh_world c =
     \<lparr>params = (\<lambda>a. \<lparr>last_refresh_time = None, max_age = None, max_age_delta = 0,
                      pname = [], pvalue = PyNone, with_decryption = True, pgroup = None\<rparr>),
      groups = (\<lambda>a. \<lparr>last_refresh_time = None, max_age = None, max_age_delta = 0,
                      parameters = []\<rparr>),
      next_param = 0, next_group = 0,
      SSM_CLIENT_FACTORY = Some (Inr c), SSM_CLIENT = None,
      boto3_client = Inl (Exc ''ModuleNotFoundError''),
      clock = (\<lambda>n. 61000000 * int n), ticks = 0, trace = []\<rparr>"

text \<open>\<^verbatim>\<open>p = SSMParameter('A')\<close> in a fresh process; \<open>p\<close> is at address 0.\<close>

definition lone_parameter :: "ssm_client \<Rightarrow> world" where
  "lone_parameter c = snd (SSMParameter_init ''A'' None True (fresh_world c))"

text \<open>The same once a first call of \<^verbatim>\<open>get_ssm_client\<close> has stored the client.\<close>

definition lone_parameter_warm :: "ssm_client \<Rightarrow> world" where
  "lone_parameter_warm c = (lone_parameter c)\<lparr>SSM_CLIENT := Some c\<rparr>"

text \<open>
  \<^verbatim>\<open>g = SSMParameterGroup(); a = g.parameter('A'); b = g.parameter('B')\<close>, with the client
  already stored; \<open>g\<close> is group 0, \<open>a\<close> and \<open>b\<close> are parameters 0 and 1.
\<close>

definition group_of_two :: "ssm_client \<Rightarrow> world" where
  "group_of_two c =
     (case SSMParameterGroup_init None ((fresh_world c)\<lparr>SSM_CLIENT := Some c\<rparr>) of
        (Inl e, s1) \<Rightarrow> s1
      | (Inr g, s1) \<Rightarrow>
          (case SSMParameterGroup_parameter g ''A'' None True s1 of
             (a, s2) \<Rightarrow> snd (SSMParameterGroup_parameter g ''B'' None True s2)))"

text \<open>
  \<^verbatim>\<open>g = SSMParameterGroup(max_age=60); g.refresh(); a = g.parameter('A')\<close>: the group,
  still empty, was refreshed at time 0; the next reading of the clock is 61 seconds.
\<close>

definition group_after_refresh :: "ssm_client \<Rightarrow> world" where
  "group_after_refresh c =
     (case SSMParameterGroup_init (Some (IntSeconds 60)) ((fresh_world c)\<lparr>SSM_CLIENT := Some c\<rparr>) of
        (Inl e, s1) \<Rightarrow> s1
      | (Inr g, s1) \<Rightarrow>
          (case Refreshable_refresh (Suc (Suc 0)) (Group g) s1 of
             (r, s2) \<Rightarrow> snd (SSMParameterGroup_parameter g ''A'' None True s2)))"

text \<open>
  Caller code. \<open>flaky\<close> fails with an \<^verbatim>\<open>AccessDenied\<close> exception unless it is told that it
  is retried; \<open>always_failing e\<close> raises \<open>e\<close>; both note the arguments they were invoked
  with. \<open>note_callback\<close> notes that it ran.
\<close>

definition flaky :: operation where
  "flaky args kwargs s =
     (if map_of kwargs ''is_retry'' = Some (PyBool True) then Inr (PyStr ''done'')
      else Inl (Exc ''AccessDenied''),
      s\<lparr>trace := trace s @ [Invoked args kwargs]\<rparr>)"

definition always_failing :: "exn \<Rightarrow> operation" where
  "always_failing e args kwargs s = (Inl e, s\<lparr>trace := trace s @ [Invoked args kwargs]\<rparr>)"

definition note_callback :: callback where
  "note_callback s = (Inr (), s\<lparr>trace := trace s @ [CalledBack]\<rparr>)"

section \<open>The recursion between a group and its parameters\<close>

text \<open>
  A parameter of a group delegates \<^verbatim>\<open>_refresh\<close> to the group's \<^verbatim>\<open>refresh\<close>, whose
  \<^verbatim>\<open>_refresh\<close> calls the \<^verbatim>\<open>_refresh\<close> of its parameters: with the first parameter of the
  list owned by the group, the calls nest until the recursion limit ends them, and
  nothing has been done to the world by then.
\<close>

lemma owned_cycle:
  assumes "parameters (groups s g) = p # ps" and "pgroup (params s p) = Some g"
  shows "Refreshable_refresh d (Group g) s = (Inl RecursionError, s)
       \<and> SSMParameterGroup__refresh d g s = (Inl RecursionError, s)
       \<and> SSMParameter__refresh d p s = (Inl RecursionError, s)"
proof (induction d)
  case 0
  show ?case by simp
next
  case (Suc d)
  then show ?case using assms by simp
qed

lemma owned_group_refresh:
  assumes "parameters (groups s g) \<noteq> []" and "owns s g"
  shows "Refreshable_refresh d (Group g) s = (Inl RecursionError, s)
       \<and> SSMParameterGroup__refresh d g s = (Inl RecursionError, s)"
proof -
  from assms(1) obtain p ps where l: "parameters (groups s g) = p # ps"
    by (cases "parameters (groups s g)") auto
  with assms(2) have "pgroup (params s p) = Some g"
    by (simp add: owns_def)
  with l show ?thesis using owned_cycle by blast
qed

lemma grouped_parameter_refresh:
  assumes "pgroup (params s p) = Some g" and "parameters (groups s g) \<noteq> []" and "owns s g"
  shows "Refreshable_refresh d (Param p) s = (Inl RecursionError, s)"
proof (cases d)
  case 0
  then show ?thesis by simp
next
  case (Suc d')
  from owned_group_refresh [OF assms(2,3)]
  have g: "Refreshable_refresh n (Group g) s = (Inl RecursionError, s)" for n
    by blast
  have "SSMParameter__refresh d' p s = (Inl RecursionError, s)"
    using assms(1) g by (cases d') simp_all
  with Suc show ?thesis by simp
qed

text \<open>
  Inside the recursion only groups are stamped: the \<^verbatim>\<open>_last_refresh_time\<close> of a
  parameter changes in \<^verbatim>\<open>Refreshable.refresh\<close> called on that parameter, nowhere else.
\<close>

lemma params_last_refresh_time_kept:
  "\<forall>r s'. Refreshable_refresh d x s = (r, s') \<longrightarrow>
     (\<forall>q. x \<noteq> Param q \<longrightarrow> last_refresh_time (params s' q) = last_refresh_time (params s q))"
  "\<forall>r s'. SSMParameterGroup__refresh d1 g s1 = (r, s') \<longrightarrow>
     (\<forall>q. last_refresh_time (params s' q) = last_refresh_time (params s1 q))"
  "\<forall>r s'. for_param_in d2 l s2 = (r, s') \<longrightarrow>
     (\<forall>q. last_refresh_time (params s' q) = last_refresh_time (params s2 q))"
  "\<forall>r s'. SSMParameter__refresh d3 p s3 = (r, s') \<longrightarrow>
     (\<forall>q. last_refresh_time (params s' q) = last_refresh_time (params s3 q))"
proof (induction d x s and d1 g s1 and d2 l s2 and d3 p s3
    rule: Refreshable_refresh_SSMParameterGroup__refresh_for_param_in_SSMParameter__refresh.induct)
  case (1 x s)
  then show ?case by simp
next
  case (2 d x s)
  then show ?case
    by (auto simp: utcnow_def set_last_refresh_time_def split: prod.splits sum.splits ref.splits)
next
  case (3 g s)
  then show ?case by simp
next
  case (4 d g s)
  then show ?case by simp
next
  case (5 d s)
  then show ?case by simp
next
  case (6 d p ps s)
  then show ?case
    by (auto split: prod.splits sum.splits)
next
  case (7 p s)
  then show ?case by simp
next
  case (8 d p s)
  then show ?case
    by (auto simp: get_ssm_client_def get_parameters_def
        split: prod.splits sum.splits option.splits if_splits)
qed

section \<open>The scenarios, evaluated\<close>

lemma recursionlimit_deep: "\<exists>d. recursionlimit = Suc (Suc (Suc (Suc d)))"
  by (rule exI [of _ 996]) (simp add: recursionlimit_def)

lemma group_of_two_eval:
  "parameters (groups (group_of_two c) 0) = [0, Suc 0]"
  "pgroup (params (group_of_two c) 0) = Some 0"
  "pgroup (params (group_of_two c) (Suc 0)) = Some 0"
  "pname (params (group_of_two c) 0) = ''A''"
  "pname (params (group_of_two c) (Suc 0)) = ''B''"
  "pvalue (params (group_of_two c) 0) = PyNone"
  "pvalue (params (group_of_two c) (Suc 0)) = PyNone"
  "trace (group_of_two c) = []"
  "SSM_CLIENT (group_of_two c) = Some c"
  by (simp_all add: group_of_two_def SSMParameterGroup_init_def SSMParameterGroup_parameter_def
      SSMParameter_init_def Refreshable_init_def or_zero_def fresh_world_def)

lemma group_after_refresh_eval:
  "parameters (groups (group_after_refresh c) 0) = [0]"
  "pgroup (params (group_after_refresh c) 0) = Some 0"
  "pvalue (params (group_after_refresh c) 0) = PyNone"
  "max_age (groups (group_after_refresh c) 0) = Some (IntSeconds 60)"
  "max_age_delta (groups (group_after_refresh c) 0) = 60000000"
  "last_refresh_time (groups (group_after_refresh c) 0) = Some 0"
  "max_age (params (group_after_refresh c) 0) = None"
  "ticks (group_after_refresh c) = Suc 0"
  "clock (group_after_refresh c) = (\<lambda>n. 61000000 * int n)"
  "trace (group_after_refresh c) = []"
  by (simp_all add: group_after_refresh_def SSMParameterGroup_init_def SSMParameterGroup_parameter_def
      SSMParameter_init_def Refreshable_init_def fresh_world_def utcnow_def
      set_last_refresh_time_def or_zero_def)

lemma lone_parameter_eval:
  "pgroup (params (lone_parameter c) 0) = None"
  "pname (params (lone_parameter c) 0) = ''A''"
  "with_decryption (params (lone_parameter c) 0) = True"
  "pvalue (params (lone_parameter c) 0) = PyNone"
  "last_refresh_time (params (lone_parameter c) 0) = None"
  "SSM_CLIENT (lone_parameter c) = None"
  "SSM_CLIENT_FACTORY (lone_parameter c) = Some (Inr c)"
  "trace (lone_parameter c) = []"
  "ticks (lone_parameter c) = 0"
  "clock (lone_parameter c) = (\<lambda>n. 61000000 * int n)"
  by (simp_all add: lone_parameter_def SSMParameter_init_def Refreshable_init_def or_zero_def
      fresh_world_def)

lemma lone_parameter_warm_eval:
  "pgroup (params (lone_parameter_warm c) 0) = None"
  "pname (params (lone_parameter_warm c) 0) = ''A''"
  "with_decryption (params (lone_parameter_warm c) 0) = True"
  "pvalue (params (lone_parameter_warm c) 0) = PyNone"
  "last_refresh_time (params (lone_parameter_warm c) 0) = None"
  "SSM_CLIENT (lone_parameter_warm c) = Some c"
  "trace (lone_parameter_warm c) = []"
  "ticks (lone_parameter_warm c) = 0"
  "clock (lone_parameter_warm c) = (\<lambda>n. 61000000 * int n)"
  by (simp_all add: lone_parameter_warm_def lone_parameter_eval)

lemma lone_flat_refresh:
  assumes "SSM_CLIENT s = Some (flat_store kvs)" and "pgroup (params s p) = None"
    and "map_of kvs (pname (params s p)) = Some v"
  shows "SSMParameter__refresh (Suc d) p s =
           (Inr (), s\<lparr>trace := trace s @ [GetParameters [pname (params s p)] (with_decryption (params s p))],
                      params := (params s)(p := (params s p)\<lparr>pvalue := PyStr v\<rparr>)\<rparr>)"
  using assms by (simp add: get_ssm_client_def get_parameters_def flat_store_def)

lemma lone_flat_missing:
  assumes "SSM_CLIENT s = Some (flat_store kvs)" and "pgroup (params s p) = None"
    and "map_of kvs (pname (params s p)) = None"
  shows "SSMParameter__refresh (Suc d) p s =
           (Inl (Exc ''ParameterNotFound''),
            s\<lparr>trace := trace s @ [GetParameters [pname (params s p)] (with_decryption (params s p))]\<rparr>)"
  using assms by (simp add: get_ssm_client_def get_parameters_def flat_store_def)

lemma should_refresh_world:
  "params (snd (Refreshable_should_refresh r s)) = params s"
  "groups (snd (Refreshable_should_refresh r s)) = groups s"
  "trace (snd (Refreshable_should_refresh r s)) = trace s"
  "SSM_CLIENT (snd (Refreshable_should_refresh r s)) = SSM_CLIENT s"
  by (simp_all add: Refreshable_should_refresh_def utcnow_def split: option.splits sum.splits)

text \<open>What \<^verbatim>\<open>Refreshable.__init__\<close> leaves in the object it initialises.\<close>

lemma Refreshable_init_Inr:
  assumes "Refreshable_init m = Inr r"
  shows "last_refresh_time r = None" and "max_age r = m"
    and "timedelta_seconds (or_zero m) = Inr (max_age_delta r)"
  using assms by (auto simp: Refreshable_init_def split: sum.splits)

section \<open>What the operations preserve\<close>

text \<open>
  The hypotheses used below (a group owns its parameters, \<^verbatim>\<open>_max_age_delta\<close> agrees with
  \<^verbatim>\<open>_max_age\<close>) hold in a fresh process and are kept by the constructors, by
  \<^verbatim>\<open>SSMParameterGroup.parameter\<close>, by \<^verbatim>\<open>refresh\<close> and by reading \<^verbatim>\<open>value\<close>; so is the fact
  that a parameter of a group never gets a value.
\<close>

lemma heap_okI:
  assumes "\<And>g p. p \<in> set (parameters (groups s g)) \<Longrightarrow>
             pgroup (params s p) = Some g \<and> p < next_param s"
    and "\<And>g. timedelta_seconds (or_zero (max_age (groups s g))) = Inr (max_age_delta (groups s g))"
    and "\<And>p. timedelta_seconds (or_zero (max_age (params s p))) = Inr (max_age_delta (params s p))"
    and "\<And>p g. pgroup (params s p) = Some g \<Longrightarrow>
             g < next_group s \<and> p \<in> set (parameters (groups s g)) \<and> pvalue (params s p) = PyNone"
  shows "heap_ok s"
  unfolding heap_ok_def owns_def list_all_iff
  using assms by blast

lemma heap_okD:
  assumes "heap_ok s"
  shows "p \<in> set (parameters (groups s g)) \<Longrightarrow> pgroup (params s p) = Some g"
    and "p \<in> set (parameters (groups s g)) \<Longrightarrow> p < next_param s"
    and "timedelta_seconds (or_zero (max_age (groups s g))) = Inr (max_age_delta (groups s g))"
    and "timedelta_seconds (or_zero (max_age (params s p))) = Inr (max_age_delta (params s p))"
    and "pgroup (params s p) = Some g \<Longrightarrow> g < next_group s"
    and "pgroup (params s p) = Some g \<Longrightarrow> p \<in> set (parameters (groups s g))"
    and "pgroup (params s p) = Some g \<Longrightarrow> pvalue (params s p) = PyNone"
    and "owns s g"
  using assms unfolding heap_ok_def owns_def list_all_iff by blast+

lemma same_structure_refl: "same_structure s s"
  by (simp add: same_structure_def)

lemma same_structure_trans:
  "same_structure s s1 \<Longrightarrow> same_structure s1 s2 \<Longrightarrow> same_structure s s2"
  by (simp add: same_structure_def)

lemma refresh_same_structure:
  "same_structure s (snd (Refreshable_refresh d x s))"
  "same_structure s1 (snd (SSMParameterGroup__refresh d1 g s1))"
  "same_structure s2 (snd (for_param_in d2 l s2))"
  "same_structure s3 (snd (SSMParameter__refresh d3 p s3))"
proof (induction d x s and d1 g s1 and d2 l s2 and d3 p s3
    rule: Refreshable_refresh_SSMParameterGroup__refresh_for_param_in_SSMParameter__refresh.induct)
  case (1 x s)
  then show ?case by (simp add: same_structure_refl)
next
  case (2 d x s)
  then show ?case
    by (auto simp: same_structure_def utcnow_def set_last_refresh_time_def
        split: prod.splits sum.splits ref.splits)
next
  case (3 g s)
  then show ?case by (simp add: same_structure_refl)
next
  case (4 d g s)
  then show ?case by simp
next
  case (5 d s)
  then show ?case by (simp add: same_structure_refl)
next
  case (6 d p ps s)
  obtain r s1 where c: "SSMParameter__refresh d p s = (r, s1)"
    by (cases "SSMParameter__refresh d p s")
  with "6.IH"(1) have a: "same_structure s s1" by simp
  show ?case
  proof (cases r)
    case (Inl e)
    with c a show ?thesis by simp
  next
    case (Inr u)
    with c "6.IH"(2) have "same_structure s1 (snd (for_param_in d ps s1))"
      by simp
    with a c Inr show ?thesis
      by (simp add: same_structure_trans)
  qed
next
  case (7 p s)
  then show ?case by (simp add: same_structure_refl)
next
  case (8 d p s)
  show ?case
  proof (cases "pgroup (params s p)")
    case (Some g)
    with "8.IH" show ?thesis by simp
  next
    case None
    then show ?thesis
      by (auto simp: same_structure_def get_ssm_client_def get_parameters_def
          split: prod.splits sum.splits option.splits if_splits)
  qed
qed

lemma heap_ok_same_structure:
  assumes "heap_ok s" and "same_structure s s'"
  shows "heap_ok s'"
proof (rule heap_okI)
  note d = heap_okD [OF assms(1)]
  from assms(2) have n: "next_param s' = next_param s" "next_group s' = next_group s"
    and pg: "\<And>q. pgroup (params s' q) = pgroup (params s q)"
    and pa: "\<And>q. max_age (params s' q) = max_age (params s q)"
    and pd: "\<And>q. max_age_delta (params s' q) = max_age_delta (params s q)"
    and pv: "\<And>q. pgroup (params s q) \<noteq> None \<Longrightarrow> pvalue (params s' q) = pvalue (params s q)"
    and gl: "\<And>g. parameters (groups s' g) = parameters (groups s g)"
    and ga: "\<And>g. max_age (groups s' g) = max_age (groups s g)"
    and gd: "\<And>g. max_age_delta (groups s' g) = max_age_delta (groups s g)"
    unfolding same_structure_def by blast+
  show "pgroup (params s' p) = Some g \<and> p < next_param s'"
    if "p \<in> set (parameters (groups s' g))" for g p
    using that d(1,2) [of p g] by (simp add: n pg gl)
  show "timedelta_seconds (or_zero (max_age (groups s' g))) = Inr (max_age_delta (groups s' g))" for g
    using d(3) [of g] by (simp add: ga gd)
  show "timedelta_seconds (or_zero (max_age (params s' p))) = Inr (max_age_delta (params s' p))" for p
    using d(4) [of p] by (simp add: pa pd)
  show "g < next_group s' \<and> p \<in> set (parameters (groups s' g)) \<and> pvalue (params s' p) = PyNone"
    if "pgroup (params s' p) = Some g" for p g
    using that d(5,6,7) [of p g] pv [of p] by (simp add: n pg gl)
qed

lemma heap_ok_fresh_world: "heap_ok (fresh_world c)"
  by (rule heap_okI) (simp_all add: fresh_world_def or_zero_def)

lemma heap_ok_refresh: "heap_ok s \<Longrightarrow> heap_ok (snd (Refreshable_refresh d x s))"
  using heap_ok_same_structure refresh_same_structure(1) by blast

lemma heap_ok_SSMParameter_init:
  assumes "heap_ok s"
  shows "heap_ok (snd (SSMParameter_init param_name m decrypt s))"
proof (cases "Refreshable_init m")
  case (Inl e)
  with assms show ?thesis by (simp add: SSMParameter_init_def)
next
  case (Inr r)
  note i = Refreshable_init_Inr [OF Inr]
  note d = heap_okD [OF assms]
  let ?s = "snd (SSMParameter_init param_name m decrypt s)"
  show ?thesis
  proof (rule heap_okI)
    show "pgroup (params ?s p) = Some g \<and> p < next_param ?s"
      if "p \<in> set (parameters (groups ?s g))" for g p
      using that d(1,2) [of p g] Inr by (auto simp: SSMParameter_init_def)
    show "timedelta_seconds (or_zero (max_age (groups ?s g))) = Inr (max_age_delta (groups ?s g))" for g
      using d(3) [of g] Inr by (simp add: SSMParameter_init_def)
    show "timedelta_seconds (or_zero (max_age (params ?s p))) = Inr (max_age_delta (params ?s p))" for p
      using d(4) [of p] Inr i by (simp add: SSMParameter_init_def)
    show "g < next_group ?s \<and> p \<in> set (parameters (groups ?s g)) \<and> pvalue (params ?s p) = PyNone"
      if "pgroup (params ?s p) = Some g" for p g
      using that d(5,6,7) [of p g] Inr by (auto simp: SSMParameter_init_def split: if_splits)
  qed
qed

lemma heap_ok_SSMParameterGroup_init:
  assumes "heap_ok s"
  shows "heap_ok (snd (SSMParameterGroup_init m s))"
proof (cases "Refreshable_init m")
  case (Inl e)
  with assms show ?thesis by (simp add: SSMParameterGroup_init_def)
next
  case (Inr r)
  note i = Refreshable_init_Inr [OF Inr]
  note d = heap_okD [OF assms]
  let ?s = "snd (SSMParameterGroup_init m s)"
  show ?thesis
  proof (rule heap_okI)
    show "pgroup (params ?s p) = Some g \<and> p < next_param ?s"
      if "p \<in> set (parameters (groups ?s g))" for g p
      using that d(1,2) [of p g] Inr by (auto simp: SSMParameterGroup_init_def split: if_splits)
    show "timedelta_seconds (or_zero (max_age (groups ?s g))) = Inr (max_age_delta (groups ?s g))" for g
      using d(3) [of g] Inr i by (simp add: SSMParameterGroup_init_def)
    show "timedelta_seconds (or_zero (max_age (params ?s p))) = Inr (max_age_delta (params ?s p))" for p
      using d(4) [of p] Inr by (simp add: SSMParameterGroup_init_def)
    show "g < next_group ?s \<and> p \<in> set (parameters (groups ?s g)) \<and> pvalue (params ?s p) = PyNone"
      if "pgroup (params ?s p) = Some g" for p g
      using that d(5,6,7) [of p g] Inr by (auto simp: SSMParameterGroup_init_def)
  qed
qed

lemma heap_ok_SSMParameterGroup_parameter:
  assumes "heap_ok s" and "self < next_group s"
  shows "heap_ok (snd (SSMParameterGroup_parameter self param_name m decrypt s))"
proof (cases "Refreshable_init m")
  case (Inl e)
  with assms show ?thesis
    by (simp add: SSMParameterGroup_parameter_def SSMParameter_init_def)
next
  case (Inr r)
  note i = Refreshable_init_Inr [OF Inr]
  note d = heap_okD [OF assms(1)]
  let ?s = "snd (SSMParameterGroup_parameter self param_name m decrypt s)"
  show ?thesis
  proof (rule heap_okI)
    show "pgroup (params ?s p) = Some g \<and> p < next_param ?s"
      if "p \<in> set (parameters (groups ?s g))" for g p
      using that d(1,2) [of p g] Inr
      by (auto simp: SSMParameterGroup_parameter_def SSMParameter_init_def split: if_splits)
    show "timedelta_seconds (or_zero (max_age (groups ?s g))) = Inr (max_age_delta (groups ?s g))" for g
      using d(3) [of g] Inr
      by (auto simp: SSMParameterGroup_parameter_def SSMParameter_init_def)
    show "timedelta_seconds (or_zero (max_age (params ?s p))) = Inr (max_age_delta (params ?s p))" for p
      using d(4) [of p] Inr i
      by (simp add: SSMParameterGroup_parameter_def SSMParameter_init_def)
    show "g < next_group ?s \<and> p \<in> set (parameters (groups ?s g)) \<and> pvalue (params ?s p) = PyNone"
      if "pgroup (params ?s p) = Some g" for p g
      using that d(5,6,7) [of p g] assms(2) Inr
      by (auto simp: SSMParameterGroup_parameter_def SSMParameter_init_def split: if_splits)
  qed
qed

text \<open>The parameter \<^verbatim>\<open>SSMParameterGroup.parameter\<close> returns is in the group and points at it.\<close>

lemma parameter_is_owned:
  assumes "fst (SSMParameterGroup_parameter g param_name m decrypt s) = Inr p"
  shows "parameters (groups (snd (SSMParameterGroup_parameter g param_name m decrypt s)) g) \<noteq> []"
    and "pgroup (params (snd (SSMParameterGroup_parameter g param_name m decrypt s)) p) = Some g"
  using assms
  by (auto simp: SSMParameterGroup_parameter_def SSMParameter_init_def split: sum.splits)

lemma heap_ok_should_refresh:
  "heap_ok s \<Longrightarrow> heap_ok (snd (Refreshable_should_refresh r s))"
  unfolding heap_ok_def owns_def Refreshable_should_refresh_def utcnow_def
  by (simp split: option.splits sum.splits)

lemma heap_ok_value:
  assumes "heap_ok s"
  shows "heap_ok (snd (SSMParameter_value d p s))"
proof -
  obtain b s0 where c: "(if pvalue (params s p) = PyNone then (Inr True, s)
            else Refreshable_should_refresh (params s p) s) = (b, s0)"
    by (cases "if pvalue (params s p) = PyNone then (Inr True, s)
            else Refreshable_should_refresh (params s p) s")
  have s0: "heap_ok s0"
    using c assms heap_ok_should_refresh [of s "params s p"]
    by (auto split: if_splits)
  from heap_ok_refresh [OF s0, of d "Param p"] s0 show ?thesis
    unfolding SSMParameter_value_def c
    by (auto split: prod.splits sum.splits bool.splits)
qed

text \<open>
  The wrapper keeps it when the wrapped operation and the callback do.
\<close>

lemma heap_ok_refresh_on_error:
  assumes "heap_ok s"
    and "\<And>a k w. heap_ok w \<Longrightarrow> heap_ok (snd (func a k w))"
    and "\<And>cb w. error_callback = Some cb \<Longrightarrow> heap_ok w \<Longrightarrow> heap_ok (snd (cb w))"
  shows "heap_ok (snd (refresh_on_error d self error_class error_callback retry_argument
                         func args kwargs s))"
proof -
  obtain r s1 where f: "func args kwargs s = (r, s1)"
    by (cases "func args kwargs s")
  with assms(2) [OF assms(1), of args kwargs] have s1: "heap_ok s1" by simp
  obtain r2 s2 where g: "Refreshable_refresh d (Param self) s1 = (r2, s2)"
    by (cases "Refreshable_refresh d (Param self) s1")
  with heap_ok_refresh [OF s1, of d "Param self"] have s2: "heap_ok s2" by simp
  obtain r3 s3 where h: "(case error_callback of None \<Rightarrow> (Inr (), s2) | Some cb \<Rightarrow> cb s2) = (r3, s3)"
    by (cases "case error_callback of None \<Rightarrow> (Inr (), s2) | Some cb \<Rightarrow> cb s2")
  have s3: "heap_ok s3"
  proof (cases error_callback)
    case None
    with h s2 show ?thesis by simp
  next
    case (Some cb)
    with h assms(3) [OF Some s2] show ?thesis by simp
  qed
  have "heap_ok (snd (func args (AList.update retry_argument (PyBool True) kwargs) s3))"
    using assms(2) [OF s3] .
  with f g h s1 s2 s3 show ?thesis
    unfolding refresh_on_error_def
    by (auto split: sum.splits)
qed

text \<open>
  In such a world a parameter of a group cannot be refreshed and cannot be read: both
  end in \<^verbatim>\<open>RecursionError\<close>, whatever the recursion limit, with the world unchanged.
\<close>

lemma grouped_parameter_unusable:
  assumes "heap_ok s" and "pgroup (params s p) = Some g"
  shows "Refreshable_refresh d (Param p) s = (Inl RecursionError, s)"
    and "SSMParameter_value d p s = (Inl RecursionError, s)"
proof -
  note h = heap_okD [OF assms(1)]
  from h(6) [OF assms(2)] have l: "parameters (groups s g) \<noteq> []" by auto
  from grouped_parameter_refresh [OF assms(2) l h(8)]
  show r: "Refreshable_refresh d (Param p) s = (Inl RecursionError, s)" .
  with h(7) [OF assms(2)] show "SSMParameter_value d p s = (Inl RecursionError, s)"
    by (simp add: SSMParameter_value_def)
qed

text \<open>
  The first \<^verbatim>\<open>refresh()\<close> of a parameter without a group, with no client stored yet:
  \<^verbatim>\<open>get_ssm_client\<close> stores the client and returns \<^verbatim>\<open>None\<close>.
\<close>

lemma lone_first_refresh:
  assumes "pgroup (params s p) = None" and "SSM_CLIENT s = None"
    and "SSM_CLIENT_FACTORY s = Some (Inr c)"
  shows "Refreshable_refresh (Suc (Suc d)) (Param p) s
           = (Inl AttributeError, s\<lparr>SSM_CLIENT := Some c\<rparr>)"
  using assms by (simp add: get_ssm_client_def)

section \<open>Refreshing a group\<close>

text \<open>
  Claim C1 says that \<^verbatim>\<open>refresh()\<close> of a group with N owned parameters makes one batched
  fetch for the N names and assigns each returned value to its parameter. The code
  does neither: for \<^verbatim>\<open>g = SSMParameterGroup(); a = g.parameter('A'); b = g.parameter('B')\<close>,
  \<^verbatim>\<open>g.refresh()\<close> under the default recursion limit raises \<^verbatim>\<open>RecursionError\<close>, leaves the
  world as it was, has sent no request to the store, and both cached values are still
  \<^verbatim>\<open>None\<close>.
\<close>

theorem group_of_two_refresh:
  "Refreshable_refresh recursionlimit (Group 0)
       (group_of_two (boto3_store [(''A'', ''1''), (''B'', ''2'')]))
     = (Inl RecursionError, group_of_two (boto3_store [(''A'', ''1''), (''B'', ''2'')]))
   \<and> fetches (group_of_two (boto3_store [(''A'', ''1''), (''B'', ''2'')])) = []
   \<and> pvalue (params (group_of_two (boto3_store [(''A'', ''1''), (''B'', ''2'')])) 0) = PyNone
   \<and> pvalue (params (group_of_two (boto3_store [(''A'', ''1''), (''B'', ''2'')])) 1) = PyNone"
proof -
  let ?s = "group_of_two (boto3_store [(''A'', ''1''), (''B'', ''2'')])"
  have "Refreshable_refresh recursionlimit (Group 0) ?s = (Inl RecursionError, ?s)"
    using owned_cycle [of ?s 0 0 "[Suc 0]" recursionlimit] by (simp add: group_of_two_eval)
  then show ?thesis
    by (simp add: group_of_two_eval fetches_def)
qed

text \<open>
  Claim C3 says that \<^verbatim>\<open>refresh()\<close> of a group with at least one owned parameter
  terminates with the members refreshed. In the code it never returns normally: whatever
  the recursion limit, the call ends in \<^verbatim>\<open>RecursionError\<close> with the world unchanged.
\<close>

theorem group_refresh_never_returns:
  assumes "parameters (groups s g) \<noteq> []" and "owns s g"
  shows "\<forall>d. Refreshable_refresh d (Group g) s = (Inl RecursionError, s)"
  using owned_group_refresh [OF assms] by blast

theorem group_refresh_never_returns_witness:
  "parameters (groups (group_of_two (flat_store [])) 0) \<noteq> [] \<and> owns (group_of_two (flat_store [])) 0
   \<and> Refreshable_refresh recursionlimit (Group 0) (group_of_two (flat_store []))
       = (Inl RecursionError, group_of_two (flat_store []))"
proof -
  have a: "parameters (groups (group_of_two (flat_store [])) 0) \<noteq> []"
    by (simp add: group_of_two_eval)
  have b: "owns (group_of_two (flat_store [])) 0"
    by (simp add: owns_def group_of_two_eval)
  from group_refresh_never_returns [OF a b] a b show ?thesis by blast
qed

section \<open>Reading the value of a parameter of a group\<close>

text \<open>
  Claim C2 says that reading \<^verbatim>\<open>value\<close> of a parameter declared through a group refreshes
  it when the group's \<^verbatim>\<open>max_age\<close> has expired, and that the group's policy decides. The
  code decides on the parameter's own fields (\<^verbatim>\<open>self._value\<close>, \<^verbatim>\<open>self._should_refresh()\<close>),
  and whenever it decides to refresh, the read raises \<^verbatim>\<open>RecursionError\<close> instead of
  returning a value. A parameter made by \<^verbatim>\<open>SSMParameterGroup.parameter\<close> never gets a
  value, so every read of it ends that way.
\<close>

theorem grouped_value_read:
  assumes "pgroup (params s p) = Some g" and "parameters (groups s g) \<noteq> []" and "owns s g"
  shows "SSMParameter_value d p s =
     (if pvalue (params s p) = PyNone then (Inl RecursionError, s)
      else case Refreshable_should_refresh (params s p) s of
             (Inl e, s0) \<Rightarrow> (Inl e, s0)
           | (Inr True, s0) \<Rightarrow> (Inl RecursionError, s0)
           | (Inr False, s0) \<Rightarrow> (Inr (pvalue (params s p)), s0))"
proof -
  have cyc: "Refreshable_refresh d (Param p) s' = (Inl RecursionError, s')"
    if "params s' = params s" and "groups s' = groups s" for s'
    using grouped_parameter_refresh [of s' p g d] assms that by (simp add: owns_def)
  show ?thesis
  proof (cases "pvalue (params s p) = PyNone")
    case True
    then show ?thesis using cyc [of s] by (simp add: SSMParameter_value_def)
  next
    case False
    obtain b s0 where sr: "Refreshable_should_refresh (params s p) s = (b, s0)"
      by (cases "Refreshable_should_refresh (params s p) s")
    have "params s0 = params s" "groups s0 = groups s"
      using should_refresh_world(1,2) [of "params s p" s] sr by simp_all
    with False sr cyc [of s0] show ?thesis
      by (auto simp: SSMParameter_value_def split: sum.splits bool.splits)
  qed
qed

theorem grouped_value_read_witness:
  "pgroup (params (group_after_refresh (flat_store [(''A'', ''1'')])) 0) = Some 0
   \<and> parameters (groups (group_after_refresh (flat_store [(''A'', ''1'')])) 0) \<noteq> []
   \<and> owns (group_after_refresh (flat_store [(''A'', ''1'')])) 0
   \<and> fst (Refreshable_should_refresh (groups (group_after_refresh (flat_store [(''A'', ''1'')])) 0)
            (group_after_refresh (flat_store [(''A'', ''1'')]))) = Inr True
   \<and> SSMParameter_value recursionlimit 0 (group_after_refresh (flat_store [(''A'', ''1'')]))
       = (Inl RecursionError, group_after_refresh (flat_store [(''A'', ''1'')]))
   \<and> fetches (group_after_refresh (flat_store [(''A'', ''1'')])) = []"
proof -
  let ?s = "group_after_refresh (flat_store [(''A'', ''1'')])"
  have a: "pgroup (params ?s 0) = Some 0" by (simp add: group_after_refresh_eval)
  have b: "parameters (groups ?s 0) \<noteq> []" by (simp add: group_after_refresh_eval)
  have c: "owns ?s 0" by (simp add: owns_def group_after_refresh_eval)
  have d: "fst (Refreshable_should_refresh (groups ?s 0) ?s) = Inr True"
    by (simp add: Refreshable_should_refresh_def utcnow_def datetime_add_def is_datetime_def
        datetime_min_def datetime_max_def group_after_refresh_eval)
  have e: "fetches ?s = []" by (simp add: fetches_def group_after_refresh_eval)
  from grouped_value_read [OF a b c, of recursionlimit] a b c d e show ?thesis
    by (simp add: group_after_refresh_eval)
qed

section \<open>The name of a parameter\<close>

text \<open>
  Claim C10 says that the property \<^verbatim>\<open>name\<close> terminates and returns the \<^verbatim>\<open>param_name\<close>
  the parameter was made with. The property returns \<^verbatim>\<open>self.name\<close>, itself: whatever the
  recursion limit, reading it raises \<^verbatim>\<open>RecursionError\<close>.
\<close>

theorem name_property_never_returns:
  "SSMParameter_name d p s = (Inl RecursionError, s)"
  by (induction d) simp_all

section \<open>Refreshing a parameter that has no group\<close>

text \<open>
  Claim C6 says that \<^verbatim>\<open>refresh()\<close> of a parameter without a group sends one request for
  its name with its \<^verbatim>\<open>with_decryption\<close> flag and caches the value the store returned. For
  \<^verbatim>\<open>p = SSMParameter('A')\<close> and a store that holds \<^verbatim>\<open>A\<close> and answers as boto3 does, the
  code does not: the first \<^verbatim>\<open>p.refresh()\<close> of the process gets \<^verbatim>\<open>None\<close> from
  \<^verbatim>\<open>get_ssm_client\<close> and raises \<^verbatim>\<open>AttributeError\<close> with nothing sent; the second one sends
  the request for \<^verbatim>\<open>['A']\<close> and then raises \<^verbatim>\<open>TypeError\<close> on
  \<^verbatim>\<open>response['Parameters']['Value']\<close>, a list indexed by a string. The cached value is
  \<^verbatim>\<open>None\<close> after both.
\<close>

theorem lone_refresh_raises:
  "Refreshable_refresh recursionlimit (Param 0) (lone_parameter (boto3_store [(''A'', ''secret'')]))
     = (Inl AttributeError, lone_parameter_warm (boto3_store [(''A'', ''secret'')]))
   \<and> fetches (lone_parameter_warm (boto3_store [(''A'', ''secret'')])) = []
   \<and> Refreshable_refresh recursionlimit (Param 0)
        (lone_parameter_warm (boto3_store [(''A'', ''secret'')]))
     = (Inl TypeError,
        (lone_parameter_warm (boto3_store [(''A'', ''secret'')]))\<lparr>trace := [GetParameters [''A''] True]\<rparr>)
   \<and> pvalue (params (lone_parameter_warm (boto3_store [(''A'', ''secret'')])) 0) = PyNone"
proof -
  obtain d where d: "recursionlimit = Suc (Suc (Suc (Suc d)))"
    using recursionlimit_deep by blast
  show ?thesis
    unfolding d
    by (simp add: lone_parameter_eval lone_parameter_warm_eval get_ssm_client_def
        get_parameters_def fetches_def boto3_store_def)
      (simp add: lone_parameter_warm_def)
qed

section \<open>When a refresh is due, and what it records\<close>

text \<open>
  Claim C5 as it is written says that \<^verbatim>\<open>_should_refresh()\<close> returns true or false for
  every entity and every current time. It does not: with \<^verbatim>\<open>max_age = -10**11\<close> seconds,
  which \<^verbatim>\<open>Refreshable.__init__\<close> accepts, a last refresh in 2023 and the clock in 2027,
  \<^verbatim>\<open>max_age\<close> is set and the current time is later than \<^verbatim>\<open>last_refresh_time + max_age\<close>,
  so the claim says true; but that sum is before the year 1, and the code raises
  \<^verbatim>\<open>OverflowError\<close> on computing it.
\<close>

theorem should_refresh_overflow:
  "Refreshable_init (Some (IntSeconds (- 100000000000)))
     = Inr \<lparr>last_refresh_time = None, max_age = Some (IntSeconds (- 100000000000)),
            max_age_delta = - 100000000000000000\<rparr>
   \<and> truthy (Some (IntSeconds (- 100000000000)))
   \<and> (1800000000000000 :: int) > 1700000000000000 + 1000000 * (- 100000000000)
   \<and> fst (utcnow ((fresh_world (flat_store []))\<lparr>clock := (\<lambda>n. 1800000000000000)\<rparr>))
       = 1800000000000000
   \<and> fst (Refreshable_should_refresh
            \<lparr>last_refresh_time = Some 1700000000000000,
             max_age = Some (IntSeconds (- 100000000000)),
             max_age_delta = - 100000000000000000\<rparr>
            ((fresh_world (flat_store []))\<lparr>clock := (\<lambda>n. 1800000000000000)\<rparr>))
       = Inl OverflowError"
  by (simp add: Refreshable_init_def or_zero_def Refreshable_should_refresh_def utcnow_def
      datetime_add_def is_datetime_def datetime_min_def datetime_max_def fresh_world_def)

text \<open>
  Claim C5, amended: for every \<^verbatim>\<open>Refreshable\<close> and every current time (the next reading
  of the clock),
  \<^item> when \<^verbatim>\<open>last_refresh_time + max_age\<close>, if there is a \<^verbatim>\<open>last_refresh_time\<close>, is a date
    that \<^verbatim>\<open>datetime\<close> can represent, \<^verbatim>\<open>_should_refresh()\<close> returns, and it returns true
    exactly when \<^verbatim>\<open>max_age\<close> is set (true: not \<^verbatim>\<open>None\<close>, not zero) and \<^verbatim>\<open>last_refresh_time\<close>
    is absent or the current time is later than \<^verbatim>\<open>last_refresh_time + max_age\<close>;
  \<^item> when \<^verbatim>\<open>max_age\<close> is unset or zero, it returns false whatever the clock says, and
    does not read it;
  \<^item> when \<^verbatim>\<open>max_age\<close> is set, there is a \<^verbatim>\<open>last_refresh_time\<close> and
    \<^verbatim>\<open>last_refresh_time + max_age\<close> is no such date, it raises \<^verbatim>\<open>OverflowError\<close>.
  \<^verbatim>\<open>max_age\<close> enters the sum as \<^verbatim>\<open>_max_age_delta\<close>, the \<^verbatim>\<open>timedelta\<close> made of it: for an
  integer, that many seconds exactly; for a float, the microseconds \<^verbatim>\<open>timedelta\<close> rounded
  it to. The hypothesis is how \<^verbatim>\<open>Refreshable.__init__\<close> leaves \<^verbatim>\<open>_max_age_delta\<close>; no code
  assigns either field afterwards.
\<close>

theorem should_refresh_cases:
  assumes "timedelta_seconds (or_zero (max_age self)) = Inr (max_age_delta self)"
  shows "((\<forall>t. last_refresh_time self = Some t \<longrightarrow> is_datetime (t + max_age_delta self)) \<longrightarrow>
            (\<exists>b. fst (Refreshable_should_refresh self s) = Inr b
               \<and> (b \<longleftrightarrow> truthy (max_age self)
                      \<and> (last_refresh_time self = None
                         \<or> (\<exists>t. last_refresh_time self = Some t
                                \<and> fst (utcnow s) > t + max_age_delta self)))))
       \<and> (\<not> truthy (max_age self) \<longrightarrow> Refreshable_should_refresh self s = (Inr False, s))
       \<and> (\<forall>t. truthy (max_age self) \<and> last_refresh_time self = Some t
               \<and> \<not> is_datetime (t + max_age_delta self) \<longrightarrow>
             fst (Refreshable_should_refresh self s) = Inl OverflowError)
       \<and> (max_age self = None \<longrightarrow> \<not> truthy (max_age self))
       \<and> (\<forall>n. max_age self = Some (IntSeconds n) \<longrightarrow>
             (truthy (max_age self) \<longleftrightarrow> n \<noteq> 0)
           \<and> (n \<noteq> 0 \<longrightarrow> max_age_delta self = 1000000 * n))
       \<and> (\<forall>b d. max_age self = Some (FloatSeconds b d) \<longrightarrow>
             (truthy (max_age self) \<longleftrightarrow> b)
           \<and> (b \<longrightarrow> d = Inr (max_age_delta self)))"
proof (intro conjI allI impI)
  assume r: "\<forall>t. last_refresh_time self = Some t \<longrightarrow> is_datetime (t + max_age_delta self)"
  show "\<exists>b. fst (Refreshable_should_refresh self s) = Inr b
          \<and> (b \<longleftrightarrow> truthy (max_age self)
                 \<and> (last_refresh_time self = None
                    \<or> (\<exists>t. last_refresh_time self = Some t
                           \<and> fst (utcnow s) > t + max_age_delta self)))"
  proof (cases "last_refresh_time self")
    case None
    then show ?thesis by (simp add: Refreshable_should_refresh_def)
  next
    case (Some t)
    with r have "is_datetime (t + max_age_delta self)" by simp
    with Some show ?thesis
      by (simp add: Refreshable_should_refresh_def datetime_add_def utcnow_def)
  qed
next
  assume "\<not> truthy (max_age self)"
  then show "Refreshable_should_refresh self s = (Inr False, s)"
    by (simp add: Refreshable_should_refresh_def)
next
  fix t
  assume "truthy (max_age self) \<and> last_refresh_time self = Some t
          \<and> \<not> is_datetime (t + max_age_delta self)"
  then show "fst (Refreshable_should_refresh self s) = Inl OverflowError"
    by (simp add: Refreshable_should_refresh_def datetime_add_def utcnow_def)
next
  assume "max_age self = None"
  then show "\<not> truthy (max_age self)" by simp
next
  fix n assume "max_age self = Some (IntSeconds n)"
  then show "truthy (max_age self) \<longleftrightarrow> n \<noteq> 0" by simp
next
  fix n assume "max_age self = Some (IntSeconds n)" and "n \<noteq> 0"
  with assms show "max_age_delta self = 1000000 * n"
    by (simp add: or_zero_def split: if_splits)
next
  fix b d assume "max_age self = Some (FloatSeconds b d)"
  then show "truthy (max_age self) \<longleftrightarrow> b" by simp
next
  fix b d assume "max_age self = Some (FloatSeconds b d)" and b
  with assms show "d = Inr (max_age_delta self)"
    by (simp add: or_zero_def)
qed

theorem should_refresh_cases_witness:
  "fst (Refreshable_should_refresh
          \<lparr>last_refresh_time = Some 0, max_age = Some (IntSeconds 60), max_age_delta = 60000000\<rparr>
          ((fresh_world (flat_store []))\<lparr>ticks := 1\<rparr>)) = Inr True
   \<and> fst (Refreshable_should_refresh
          \<lparr>last_refresh_time = Some 0, max_age = Some (IntSeconds 61), max_age_delta = 61000000\<rparr>
          ((fresh_world (flat_store []))\<lparr>ticks := 1\<rparr>)) = Inr False
   \<and> fst (Refreshable_should_refresh
          \<lparr>last_refresh_time = Some 0, max_age = Some (FloatSeconds True (Inr 500000)),
           max_age_delta = 500000\<rparr>
          ((fresh_world (flat_store []))\<lparr>ticks := 1\<rparr>)) = Inr True
   \<and> Refreshable_should_refresh
          \<lparr>last_refresh_time = Some 0, max_age = None, max_age_delta = 0\<rparr>
          ((fresh_world (flat_store []))\<lparr>ticks := 1\<rparr>)
       = (Inr False, (fresh_world (flat_store []))\<lparr>ticks := 1\<rparr>)
   \<and> fst (Refreshable_should_refresh
          \<lparr>last_refresh_time = Some 0, max_age = Some (IntSeconds 300000000000),
           max_age_delta = 300000000000000000\<rparr>
          ((fresh_world (flat_store []))\<lparr>ticks := 1\<rparr>)) = Inl OverflowError"
proof -
  let ?s = "(fresh_world (flat_store []))\<lparr>ticks := 1\<rparr>"
  let ?a = "\<lparr>last_refresh_time = Some 0, max_age = Some (IntSeconds 60), max_age_delta = 60000000\<rparr>"
  let ?b = "\<lparr>last_refresh_time = Some 0, max_age = Some (IntSeconds 61), max_age_delta = 61000000\<rparr>"
  let ?c = "\<lparr>last_refresh_time = Some 0, max_age = Some (FloatSeconds True (Inr 500000)),
             max_age_delta = 500000\<rparr>"
  let ?d = "\<lparr>last_refresh_time = Some 0, max_age = None, max_age_delta = 0\<rparr>"
  let ?e = "\<lparr>last_refresh_time = Some 0, max_age = Some (IntSeconds 300000000000),
             max_age_delta = 300000000000000000\<rparr>"
  have now: "fst (utcnow ?s) = 61000000"
    by (simp add: utcnow_def fresh_world_def)
  have ha: "timedelta_seconds (or_zero (max_age ?a)) = Inr (max_age_delta ?a)"
    and hb: "timedelta_seconds (or_zero (max_age ?b)) = Inr (max_age_delta ?b)"
    and hc: "timedelta_seconds (or_zero (max_age ?c)) = Inr (max_age_delta ?c)"
    and hd: "timedelta_seconds (or_zero (max_age ?d)) = Inr (max_age_delta ?d)"
    and he: "timedelta_seconds (or_zero (max_age ?e)) = Inr (max_age_delta ?e)"
    by (simp_all add: or_zero_def)
  have a: "fst (Refreshable_should_refresh ?a ?s) = Inr True"
    using should_refresh_cases [OF ha, of ?s] now
    by (auto simp: is_datetime_def datetime_min_def datetime_max_def)
  have b: "fst (Refreshable_should_refresh ?b ?s) = Inr False"
    using should_refresh_cases [OF hb, of ?s] now
    by (auto simp: is_datetime_def datetime_min_def datetime_max_def)
  have c: "fst (Refreshable_should_refresh ?c ?s) = Inr True"
    using should_refresh_cases [OF hc, of ?s] now
    by (auto simp: is_datetime_def datetime_min_def datetime_max_def)
  have d: "Refreshable_should_refresh ?d ?s = (Inr False, ?s)"
    using should_refresh_cases [OF hd, of ?s] by simp
  have e: "fst (Refreshable_should_refresh ?e ?s) = Inl OverflowError"
    using should_refresh_cases [OF he, of ?s]
    by (simp add: is_datetime_def datetime_min_def datetime_max_def)
  from a b c d e show ?thesis by blast
qed

text \<open>
  Claim C7: \<^verbatim>\<open>refresh()\<close> records the current time as \<^verbatim>\<open>last_refresh_time\<close> exactly when
  the fetch \<^verbatim>\<open>self._refresh()\<close> returns: the time is read after the fetch, from the world
  the fetch left. When the fetch raises, \<^verbatim>\<open>refresh()\<close> raises the same exception, leaves
  the world as the fetch left it, and the \<^verbatim>\<open>last_refresh_time\<close> of the entity is what it
  was before the call (for a group, one that owns its parameters).
\<close>

theorem refresh_stamps_on_return:
  "(\<forall>u s1. virtual_refresh d x s = (Inr u, s1) \<longrightarrow>
       Refreshable_refresh (Suc d) x s
         = (Inr (), set_last_refresh_time x (fst (utcnow s1)) (snd (utcnow s1)))
     \<and> get_last_refresh_time x (snd (Refreshable_refresh (Suc d) x s)) = Some (fst (utcnow s1)))
   \<and> (\<forall>e s1. virtual_refresh d x s = (Inl e, s1) \<longrightarrow>
       Refreshable_refresh (Suc d) x s = (Inl e, s1)
     \<and> ((\<forall>g. x = Group g \<longrightarrow> owns s g) \<longrightarrow>
          get_last_refresh_time x s1 = get_last_refresh_time x s))"
proof (intro conjI allI impI)
  fix u s1 assume "virtual_refresh d x s = (Inr u, s1)"
  then show r: "Refreshable_refresh (Suc d) x s
         = (Inr (), set_last_refresh_time x (fst (utcnow s1)) (snd (utcnow s1)))"
    by (simp add: virtual_refresh_def split: prod.splits)
  show "get_last_refresh_time x (snd (Refreshable_refresh (Suc d) x s)) = Some (fst (utcnow s1))"
    unfolding r
    by (simp add: get_last_refresh_time_def set_last_refresh_time_def utcnow_def split: ref.splits)
next
  fix e s1 assume "virtual_refresh d x s = (Inl e, s1)"
  then show "Refreshable_refresh (Suc d) x s = (Inl e, s1)"
    by (simp add: virtual_refresh_def)
next
  fix e s1 assume f: "virtual_refresh d x s = (Inl e, s1)"
    and o: "\<forall>g. x = Group g \<longrightarrow> owns s g"
  show "get_last_refresh_time x s1 = get_last_refresh_time x s"
  proof (cases x)
    case (Param p)
    with f params_last_refresh_time_kept(4) [of d p s] show ?thesis
      by (simp add: virtual_refresh_def get_last_refresh_time_def)
  next
    case (Group g)
    with o have own: "owns s g" by simp
    show ?thesis
    proof (cases "parameters (groups s g) = []")
      case True
      with f Group show ?thesis
        by (cases d) (simp_all add: virtual_refresh_def)
    next
      case False
      from owned_group_refresh [OF False own, of d] f Group show ?thesis
        by (simp add: virtual_refresh_def)
    qed
  qed
qed

theorem refresh_stamps_on_return_witness:
  "fst (virtual_refresh (Suc 0) (Param 0) ((lone_parameter_warm (flat_store [(''A'', ''v1'')]))\<lparr>ticks := 1\<rparr>)) = Inr ()
   \<and> fst (Refreshable_refresh (Suc (Suc 0)) (Param 0) ((lone_parameter_warm (flat_store [(''A'', ''v1'')]))\<lparr>ticks := 1\<rparr>)) = Inr ()
   \<and> get_last_refresh_time (Param 0)
        (snd (Refreshable_refresh (Suc (Suc 0)) (Param 0) ((lone_parameter_warm (flat_store [(''A'', ''v1'')]))\<lparr>ticks := 1\<rparr>)))
       = Some 61000000
   \<and> virtual_refresh (Suc 0) (Group 0) (group_of_two (flat_store [(''A'', ''v1'')]))
       = (Inl RecursionError, group_of_two (flat_store [(''A'', ''v1'')]))
   \<and> owns (group_of_two (flat_store [(''A'', ''v1'')])) 0
   \<and> Refreshable_refresh (Suc (Suc 0)) (Group 0) (group_of_two (flat_store [(''A'', ''v1'')]))
       = (Inl RecursionError, group_of_two (flat_store [(''A'', ''v1'')]))
   \<and> get_last_refresh_time (Group 0) (group_of_two (flat_store [(''A'', ''v1'')])) = None"
proof -
  let ?w = "(lone_parameter_warm (flat_store [(''A'', ''v1'')]))\<lparr>ticks := 1\<rparr>"
  let ?g = "group_of_two (flat_store [(''A'', ''v1'')])"
  have v: "virtual_refresh (Suc 0) (Param 0) ?w
      = (Inr (), ?w\<lparr>trace := trace ?w @ [GetParameters [pname (params ?w 0)] (with_decryption (params ?w 0))],
                      params := (params ?w)(0 := (params ?w 0)\<lparr>pvalue := PyStr ''v1''\<rparr>)\<rparr>)"
    unfolding virtual_refresh_def
    by (simp add: get_ssm_client_def get_parameters_def flat_store_def fetches_def
        lone_parameter_warm_eval)
  have own: "owns ?g 0" by (simp add: owns_def group_of_two_eval)
  have f: "virtual_refresh (Suc 0) (Group 0) ?g = (Inl RecursionError, ?g)"
    using owned_cycle [of ?g 0 0 "[Suc 0]" "Suc 0"] by (simp add: virtual_refresh_def group_of_two_eval)
  have l: "get_last_refresh_time (Group 0) ?g = None"
    by (simp add: get_last_refresh_time_def group_of_two_def SSMParameterGroup_init_def
        SSMParameterGroup_parameter_def SSMParameter_init_def Refreshable_init_def or_zero_def
        fresh_world_def)
  let ?w1 = "?w\<lparr>trace := trace ?w @ [GetParameters [pname (params ?w 0)] (with_decryption (params ?w 0))],
                  params := (params ?w)(0 := (params ?w 0)\<lparr>pvalue := PyStr ''v1''\<rparr>)\<rparr>"
  from refresh_stamps_on_return [of "Suc 0" "Param 0" ?w] v
  have t1: "Refreshable_refresh (Suc (Suc 0)) (Param 0) ?w
              = (Inr (), set_last_refresh_time (Param 0) (fst (utcnow ?w1)) (snd (utcnow ?w1)))"
    and t2: "get_last_refresh_time (Param 0) (snd (Refreshable_refresh (Suc (Suc 0)) (Param 0) ?w))
              = Some (fst (utcnow ?w1))"
    by blast+
  from refresh_stamps_on_return [of "Suc 0" "Group 0" ?g] f
  have c: "Refreshable_refresh (Suc (Suc 0)) (Group 0) ?g = (Inl RecursionError, ?g)"
    by blast
  have now: "fst (utcnow ?w1) = 61000000"
    by (simp add: utcnow_def lone_parameter_warm_eval)
  have v': "fst (virtual_refresh (Suc 0) (Param 0) ?w) = Inr ()"
    by (simp only: v fst_conv)
  have a: "fst (Refreshable_refresh (Suc (Suc 0)) (Param 0) ?w) = Inr ()"
    by (simp only: t1 fst_conv)
  have b: "get_last_refresh_time (Param 0) (snd (Refreshable_refresh (Suc (Suc 0)) (Param 0) ?w))
      = Some 61000000"
    by (simp only: t2 now)
  from v' a b f own c l show ?thesis by blast
qed

section \<open>Making a parameter\<close>



section \<open>The wrapper of the decorator\<close>

text \<open>
  Claim C8: when the wrapped operation fails with an exception that the configured
  error class does not accept, the wrapper raises that exception and the world is the
  one the single invocation left: no refresh of the parameter, no callback, no retry.
\<close>

theorem unmatched_error_propagates:
  assumes "func args kwargs s = (Inl e, s1)" and "\<not> error_class e"
  shows "refresh_on_error d self error_class error_callback retry_argument func args kwargs s
           = (Inl e, s1)"
  using assms by (simp add: refresh_on_error_def)

theorem unmatched_error_propagates_witness:
  "always_failing (BaseExc ''KeyboardInterrupt'') [] [] (lone_parameter (flat_store []))
      = (Inl (BaseExc ''KeyboardInterrupt''),
         (lone_parameter (flat_store []))\<lparr>trace := [Invoked [] []]\<rparr>)
   \<and> \<not> Exception_class (BaseExc ''KeyboardInterrupt'')
   \<and> refresh_on_error recursionlimit 0 Exception_class (Some note_callback) ''is_retry''
        (always_failing (BaseExc ''KeyboardInterrupt'')) [] [] (lone_parameter (flat_store []))
      = (Inl (BaseExc ''KeyboardInterrupt''),
         (lone_parameter (flat_store []))\<lparr>trace := [Invoked [] []]\<rparr>)"
proof -
  let ?s = "lone_parameter (flat_store [])"
  have a: "always_failing (BaseExc ''KeyboardInterrupt'') [] [] ?s
      = (Inl (BaseExc ''KeyboardInterrupt''), ?s\<lparr>trace := [Invoked [] []]\<rparr>)"
    by (simp add: always_failing_def lone_parameter_eval)
  have b: "\<not> Exception_class (BaseExc ''KeyboardInterrupt'')" by simp
  from unmatched_error_propagates [where func = "always_failing (BaseExc ''KeyboardInterrupt'')"
      and args = "[]" and kwargs = "[]" and error_class = Exception_class, OF a b] a b
  show ?thesis by simp
qed

text \<open>
  Claim C4 as it is written promises the callback, the retry and the second result
  whenever the first invocation fails with a matching error. It does not hold when the
  refresh itself fails: with a parameter \<^verbatim>\<open>A\<close> that the store does not hold,
  \<^verbatim>\<open>refresh()\<close> raises \<^verbatim>\<open>ParameterNotFound\<close>, the wrapper raises it too, the callback has
  not run and the operation, which would have succeeded on a retry, was invoked once.
\<close>

theorem retry_skipped_when_refresh_fails:
  "flaky [] [] (lone_parameter_warm (flat_store []))
      = (Inl (Exc ''AccessDenied''), (lone_parameter_warm (flat_store []))\<lparr>trace := [Invoked [] []]\<rparr>)
   \<and> Exception_class (Exc ''AccessDenied'')
   \<and> refresh_on_error recursionlimit 0 Exception_class (Some note_callback) ''is_retry'' flaky [] []
        (lone_parameter_warm (flat_store []))
      = (Inl (Exc ''ParameterNotFound''),
         (lone_parameter_warm (flat_store []))\<lparr>trace := [Invoked [] [], GetParameters [''A''] True]\<rparr>)
   \<and> fst (flaky [] (AList.update ''is_retry'' (PyBool True) [])
             ((lone_parameter_warm (flat_store []))\<lparr>trace := [Invoked [] [], GetParameters [''A''] True]\<rparr>))
       = Inr (PyStr ''done'')"
proof -
  obtain d where d: "recursionlimit = Suc (Suc (Suc (Suc d)))"
    using recursionlimit_deep by blast
  show ?thesis
    unfolding d
    by (simp add: refresh_on_error_def flaky_def lone_parameter_warm_eval
        get_ssm_client_def get_parameters_def flat_store_def fetches_def)
qed

text \<open>
  Claim C4, amended: when the first invocation fails with an error that the configured
  error class accepts, the wrapper calls \<^verbatim>\<open>refresh()\<close> on its parameter; a failure of the
  refresh propagates and nothing else is done. When the refresh returns, the callback,
  if there is one, is called; a failure of the callback propagates. When that returns
  too, the operation is invoked once more, with the same positional arguments and the
  keyword arguments with \<open>retry_argument\<close> set to \<^verbatim>\<open>True\<close>, in the world the refresh and the
  callback left, and the wrapper's outcome (result or exception, and world) is the
  outcome of that one invocation.
\<close>

theorem retry_after_refresh:
  assumes "func args kwargs s = (Inl e, s1)" and "error_class e"
  shows "(\<forall>e1 s2. Refreshable_refresh d (Param self) s1 = (Inl e1, s2) \<longrightarrow>
            refresh_on_error d self error_class error_callback retry_argument func args kwargs s
              = (Inl e1, s2))
       \<and> (\<forall>u s2. Refreshable_refresh d (Param self) s1 = (Inr u, s2) \<longrightarrow>
            (error_callback = None \<longrightarrow>
               refresh_on_error d self error_class error_callback retry_argument func args kwargs s
                 = func args (AList.update retry_argument (PyBool True) kwargs) s2)
          \<and> (\<forall>cb. error_callback = Some cb \<longrightarrow>
               (\<forall>e2 s3. cb s2 = (Inl e2, s3) \<longrightarrow>
                  refresh_on_error d self error_class error_callback retry_argument func args kwargs s
                    = (Inl e2, s3))
             \<and> (\<forall>v s3. cb s2 = (Inr v, s3) \<longrightarrow>
                  refresh_on_error d self error_class error_callback retry_argument func args kwargs s
                    = func args (AList.update retry_argument (PyBool True) kwargs) s3)))
       \<and> map_of (AList.update retry_argument (PyBool True) kwargs)
           = (map_of kwargs)(retry_argument \<mapsto> PyBool True)"
  using assms by (simp add: refresh_on_error_def update_conv')

theorem retry_after_refresh_witness:
  "flaky [PyStr ''x''] [] (lone_parameter_warm (flat_store [(''A'', ''v1'')]))
      = (Inl (Exc ''AccessDenied''),
         (lone_parameter_warm (flat_store [(''A'', ''v1'')]))\<lparr>trace := [Invoked [PyStr ''x''] []]\<rparr>)
   \<and> Exception_class (Exc ''AccessDenied'')
   \<and> fst (refresh_on_error recursionlimit 0 Exception_class (Some note_callback) ''is_retry'' flaky
            [PyStr ''x''] [] (lone_parameter_warm (flat_store [(''A'', ''v1'')])))
       = Inr (PyStr ''done'')
   \<and> trace (snd (refresh_on_error recursionlimit 0 Exception_class (Some note_callback) ''is_retry'' flaky
            [PyStr ''x''] [] (lone_parameter_warm (flat_store [(''A'', ''v1'')]))))
       = [Invoked [PyStr ''x''] [], GetParameters [''A''] True, CalledBack,
          Invoked [PyStr ''x''] [(''is_retry'', PyBool True)]]
   \<and> pvalue (params (snd (refresh_on_error recursionlimit 0 Exception_class (Some note_callback) ''is_retry''
            flaky [PyStr ''x''] [] (lone_parameter_warm (flat_store [(''A'', ''v1'')])))) 0)
       = PyStr ''v1''"
proof -
  let ?w = "lone_parameter_warm (flat_store [(''A'', ''v1'')])"
  let ?w1 = "?w\<lparr>trace := [Invoked [PyStr ''x''] []]\<rparr>"
  let ?w2 = "?w1\<lparr>trace := trace ?w1 @ [GetParameters [pname (params ?w1 0)] (with_decryption (params ?w1 0))],
                  params := (params ?w1)(0 := (params ?w1 0)\<lparr>pvalue := PyStr ''v1''\<rparr>)\<rparr>"
  let ?w3 = "set_last_refresh_time (Param 0) (fst (utcnow ?w2)) (snd (utcnow ?w2))"
  let ?w4 = "?w3\<lparr>trace := trace ?w3 @ [CalledBack]\<rparr>"
  obtain d where d: "recursionlimit = Suc (Suc (Suc (Suc d)))"
    using recursionlimit_deep by blast
  have a: "flaky [PyStr ''x''] [] ?w = (Inl (Exc ''AccessDenied''), ?w1)"
    by (simp add: flaky_def lone_parameter_warm_eval)
  have b: "Exception_class (Exc ''AccessDenied'')" by simp
  have c: "Refreshable_refresh recursionlimit (Param 0) ?w1 = (Inr (), ?w3)"
    unfolding d
    by (simp add: get_ssm_client_def get_parameters_def flat_store_def fetches_def
        utcnow_def lone_parameter_warm_eval)
  have e: "note_callback ?w3 = (Inr (), ?w4)"
    by (simp add: note_callback_def)
  from retry_after_refresh [where func = flaky and args = "[PyStr ''x'']" and kwargs = "[]"
      and error_class = Exception_class and d = recursionlimit and self = 0
      and error_callback = "Some note_callback" and retry_argument = "''is_retry''", OF a b] c e
  have r: "refresh_on_error recursionlimit 0 Exception_class (Some note_callback) ''is_retry'' flaky
            [PyStr ''x''] [] ?w
         = flaky [PyStr ''x''] (AList.update ''is_retry'' (PyBool True) []) ?w4"
    by simp
  show ?thesis
    unfolding r using a b
    by (simp add: flaky_def set_last_refresh_time_def utcnow_def lone_parameter_warm_eval)
qed

end
